theory Spec2Isabelle
  imports Complex_Main "HOL-Library.Word"
begin

section \<open>Equirectangular panorama to cubemap: the model of skybox.py\<close>

text \<open>
  The program computes with two kinds of floating-point numbers. The panorama is an array
  of single-precision numbers read from a file, so a channel can be any finite number, an
  infinity or a NaN; its arithmetic (lines 32-34) is rounded, and is a parameter of the
  model. The projector (lines 40-106) computes in double precision on numbers that are
  finite by construction; there a number is a real number or the negative zero, which
  \<open>np.arctan2\<close> tells from the positive one, and the operations are the exact ones.
  Integers are Python's unbounded ones (\<open>int\<close>), a \<open>uint8\<close> channel is an 8-bit word.
\<close>

subsection \<open>Errors and arrays\<close>

datatype error = ValueError | IndexError | Cv2Error

type_synonym uint8 = "8 word"
type_synonym rgb8 = "uint8 \<times> uint8 \<times> uint8"

text \<open>
  A NumPy array of shape \<open>(rows, cols, 3)\<close>: its first two dimensions and the triple
  stored at each in-range index pair. Indices are read through \<open>np_getitem\<close> and written
  through \<open>np_setitem\<close>, which check them.
\<close>

record 'a ndarray =
  rows :: nat
  cols :: nat
  item :: "nat \<Rightarrow> nat \<Rightarrow> 'a"

text \<open>\<open>np.zeros((n, n, 3), dtype=np.uint8)\<close>: a negative dimension raises ValueError.\<close>

definition np_zeros :: "int \<Rightarrow> error + rgb8 ndarray" where
  "np_zeros n =
     (if n < 0 then Inl ValueError
      else Inr \<lparr>rows = nat n, cols = nat n, item = (\<lambda>i j. (0, 0, 0))\<rparr>)"

text \<open>
  One axis of \<open>a[py, px]\<close>: a negative index counts from the end, an index outside the
  axis raises IndexError.
\<close>

definition np_axis :: "nat \<Rightarrow> int \<Rightarrow> error + nat" where
  "np_axis n i =
     (let k = (if i < 0 then i + int n else i)
      in if 0 \<le> k \<and> k < int n then Inr (nat k) else Inl IndexError)"

definition np_getitem :: "'a ndarray \<Rightarrow> int \<Rightarrow> int \<Rightarrow> error + 'a" where
  "np_getitem a py px =
     (case np_axis (rows a) py of
        Inl e \<Rightarrow> Inl e
      | Inr r \<Rightarrow> (case np_axis (cols a) px of
                    Inl e \<Rightarrow> Inl e
                  | Inr c \<Rightarrow> Inr (item a r c)))"

text \<open>
  \<open>face[i, j] = p\<close> for the loop indices \<open>i, j\<close>, which are never negative: an index
  outside the array raises IndexError.
\<close>

definition np_setitem :: "'a ndarray \<Rightarrow> nat \<Rightarrow> nat \<Rightarrow> 'a \<Rightarrow> error + 'a ndarray" where
  "np_setitem a i j p =
     (if i < rows a \<and> j < cols a
      then Inr (a\<lparr>item := (item a)(i := (item a i)(j := p))\<rparr>)
      else Inl IndexError)"

subsection \<open>Single-precision channels\<close>

text \<open>
  A value of the \<open>float32\<close> panorama. The two zeros are one number here: lines 32-34 give
  the byte 0 for both.
\<close>

datatype f32 = Finite real | PosInf | NegInf | NaN

type_synonym rgbf = "f32 \<times> f32 \<times> f32"

text \<open>
  The single-precision arithmetic of NumPy on finite numbers: the rounded product, which
  overflows to an infinity, the power of \<open>np.power\<close> on a base that is not negative, and
  the byte that the cast of \<open>astype(np.uint8)\<close> gives for a NaN or an infinity, which
  depends on the platform.
\<close>

record arith32 =
  mul32 :: "real \<Rightarrow> real \<Rightarrow> f32"
  pow32 :: "real \<Rightarrow> real \<Rightarrow> real"
  cast_nonfinite :: "f32 \<Rightarrow> uint8"

text \<open>The product of an array element with a positive constant, as in \<open>hdr * 1.5\<close>.\<close>

definition f32_scale :: "arith32 \<Rightarrow> f32 \<Rightarrow> real \<Rightarrow> f32" where
  "f32_scale ar x k =
     (case x of
        Finite r \<Rightarrow> mul32 ar r k
      | PosInf \<Rightarrow> PosInf
      | NegInf \<Rightarrow> NegInf
      | NaN \<Rightarrow> NaN)"

text \<open>\<open>np.clip(x, lo, hi)\<close> is \<open>minimum(maximum(x, lo), hi)\<close>; a NaN stays a NaN.\<close>

definition np_clip :: "f32 \<Rightarrow> real \<Rightarrow> real \<Rightarrow> f32" where
  "np_clip x lo hi =
     (case x of
        Finite r \<Rightarrow> Finite (min (max r lo) hi)
      | PosInf \<Rightarrow> Finite hi
      | NegInf \<Rightarrow> Finite (min lo hi)
      | NaN \<Rightarrow> NaN)"

text \<open>
  \<open>np.power(x, p)\<close> for an exponent \<open>p\<close> between 0 and 1: a negative base gives NaN,
  both infinities give the positive one.
\<close>

definition np_power :: "arith32 \<Rightarrow> f32 \<Rightarrow> real \<Rightarrow> f32" where
  "np_power ar x p =
     (case x of
        Finite r \<Rightarrow> (if r < 0 then NaN else Finite (pow32 ar r p))
      | PosInf \<Rightarrow> PosInf
      | NegInf \<Rightarrow> PosInf
      | NaN \<Rightarrow> NaN)"

text \<open>
  Python's \<open>int(x)\<close> and the cast of \<open>astype\<close>: truncation towards zero. The cast keeps
  the low 8 bits; after the clamp of line 32 its operand is in \<open>[0, 255]\<close>, where nothing
  is cut off.
\<close>

definition py_int :: "real \<Rightarrow> int" where
  "py_int x = (if 0 \<le> x then \<lfloor>x\<rfloor> else \<lceil>x\<rceil>)"

definition astype_uint8 :: "arith32 \<Rightarrow> f32 \<Rightarrow> uint8" where
  "astype_uint8 ar x =
     (case x of
        Finite r \<Rightarrow> word_of_int (py_int r)
      | PosInf \<Rightarrow> cast_nonfinite ar PosInf
      | NegInf \<Rightarrow> cast_nonfinite ar NegInf
      | NaN \<Rightarrow> cast_nonfinite ar NaN)"

text \<open>
  What lines 32-34 need of IEEE 754 single precision, where rounding is monotone and 0, 1
  and 255 are numbers of the format: a product of finite numbers is not a NaN, a power of
  a base in \<open>[0, 1]\<close> stays in \<open>[0, 1]\<close>, 255 times a number of \<open>[0, 1]\<close> stays in
  \<open>[0, 255]\<close>, and both are exact at 0 and 1.
\<close>

definition ieee32 :: "arith32 \<Rightarrow> bool" where
  "ieee32 ar \<longleftrightarrow>
     (\<forall>x. mul32 ar x 1.5 \<noteq> NaN) \<and>
     (\<forall>c. 0 \<le> c \<and> c \<le> 1 \<longrightarrow> 0 \<le> pow32 ar c (1 / 2.2) \<and> pow32 ar c (1 / 2.2) \<le> 1) \<and>
     (\<forall>g. 0 \<le> g \<and> g \<le> 1 \<longrightarrow> (\<exists>s. mul32 ar g 255 = Finite s \<and> 0 \<le> s \<and> s \<le> 255)) \<and>
     pow32 ar 0 (1 / 2.2) = 0 \<and> pow32 ar 1 (1 / 2.2) = 1 \<and>
     mul32 ar 0 255 = Finite 0 \<and> mul32 ar 1 255 = Finite 255"

subsection \<open>Double-precision numbers of the projector\<close>

text \<open>
  A finite double: a real number, \<open>F64 0\<close> being the positive zero, or the negative zero.
\<close>

datatype f64 = F64 real | NegZero

fun val :: "f64 \<Rightarrow> real" where
  "val (F64 r) = r"
| "val NegZero = 0"

fun signbit :: "f64 \<Rightarrow> bool" where
  "signbit (F64 r) = (r < 0)"
| "signbit NegZero = True"

text \<open>Unary minus: it turns each zero into the other.\<close>

fun fneg :: "f64 \<Rightarrow> f64" where
  "fneg (F64 r) = (if r = 0 then NegZero else F64 (- r))"
| "fneg NegZero = F64 0"

text \<open>Division by a positive number, which keeps the sign of a zero.\<close>

fun fdiv :: "f64 \<Rightarrow> real \<Rightarrow> f64" where
  "fdiv (F64 r) n = F64 (r / n)"
| "fdiv NegZero n = NegZero"

text \<open>The numbers that a vector of doubles denotes.\<close>

definition vals :: "f64 \<times> f64 \<times> f64 \<Rightarrow> real \<times> real \<times> real" where
  "vals vec = (case vec of (x, y, z) \<Rightarrow> (val x, val y, val z))"

definition np_norm :: "f64 \<Rightarrow> f64 \<Rightarrow> f64 \<Rightarrow> real" where
  "np_norm x y z = sqrt ((val x)\<^sup>2 + (val y)\<^sup>2 + (val z)\<^sup>2)"

text \<open>
  \<open>np.arctan2(y, x)\<close>, the angle of the point \<open>(x, y)\<close> in \<open>[-\<pi>, \<pi>]\<close>, with the cases of
  IEEE 754 for the zeros: on the negative x axis the angle is \<open>\<pi>\<close> for the positive zero
  \<open>y\<close> and \<open>-\<pi>\<close> for the negative one, and at the origin the negative zero \<open>x\<close> counts
  as negative. The angle is used as a number only, so the sign of a zero angle is dropped.
\<close>

definition np_arctan2 :: "f64 \<Rightarrow> f64 \<Rightarrow> real" where
  "np_arctan2 y x =
     (if 0 < val x then arctan (val y / val x)
      else if val x < 0 then
        (if signbit y then arctan (val y / val x) - pi else arctan (val y / val x) + pi)
      else if 0 < val y then pi / 2
      else if val y < 0 then - (pi / 2)
      else if x = NegZero then (if signbit y then - pi else pi)
      else 0)"

subsection \<open>Face size (lines 16-20)\<close>

definition resolve :: "int \<Rightarrow> int option \<Rightarrow> int" where
  "resolve height size_arg = (case size_arg of None \<Rightarrow> height div 2 | Some s \<Rightarrow> s)"

subsection \<open>Tonemapping (lines 31-34)\<close>

text \<open>The value of a channel before the cast of line 34.\<close>

definition tonemap_value :: "arith32 \<Rightarrow> f32 \<Rightarrow> f32" where
  "tonemap_value ar x =
     (let c = np_clip (f32_scale ar x 1.5) 0 1;
          g = np_power ar c (1 / 2.2)
      in f32_scale ar g 255)"

definition tonemap_channel :: "arith32 \<Rightarrow> f32 \<Rightarrow> uint8" where
  "tonemap_channel ar x = astype_uint8 ar (tonemap_value ar x)"

definition tonemap_pixel :: "arith32 \<Rightarrow> rgbf \<Rightarrow> rgb8" where
  "tonemap_pixel ar p =
     (case p of
        (r, g, b) \<Rightarrow> (tonemap_channel ar r, tonemap_channel ar g, tonemap_channel ar b))"

definition tonemap :: "arith32 \<Rightarrow> rgbf ndarray \<Rightarrow> rgb8 ndarray" where
  "tonemap ar hdr =
     \<lparr>rows = rows hdr, cols = cols hdr, item = (\<lambda>i j. tonemap_pixel ar (item hdr i j))\<rparr>"

subsection \<open>Sampling the panorama (lines 40-49)\<close>

text \<open>Lines 41-42: \<open>vec / np.linalg.norm(vec)\<close>.\<close>

definition normalize :: "f64 \<times> f64 \<times> f64 \<Rightarrow> f64 \<times> f64 \<times> f64" where
  "normalize vec =
     (case vec of (x, y, z) \<Rightarrow> (let n = np_norm x y z in (fdiv x n, fdiv y n, fdiv z n)))"

text \<open>Lines 44-45, on the normalized vector.\<close>

definition tex_coords :: "f64 \<times> f64 \<times> f64 \<Rightarrow> real \<times> real" where
  "tex_coords vec =
     (case vec of
        (vec0, vec1, vec2) \<Rightarrow>
          (let u = 0.5 + np_arctan2 vec0 vec2 / (2 * pi);
               v = 0.5 - arcsin (val vec1) / pi
           in (u, v)))"

text \<open>Lines 47-48: the row \<open>py\<close> and the column \<open>px\<close> of the source pixel.\<close>

definition pixel_index :: "int \<Rightarrow> int \<Rightarrow> f64 \<times> f64 \<times> f64 \<Rightarrow> int \<times> int" where
  "pixel_index h w vec =
     (case tex_coords (normalize vec) of
        (u, v) \<Rightarrow>
          (let px = py_int (u * real_of_int (w - 1));
               py = py_int (v * real_of_int (h - 1))
           in (py, px)))"

text \<open>
  The zero vector has norm 0: NumPy's division yields NaN there, and \<open>int\<close> of a NaN
  raises ValueError.
\<close>

definition sample_equirect :: "rgb8 ndarray \<Rightarrow> f64 \<Rightarrow> f64 \<Rightarrow> f64 \<Rightarrow> error + rgb8" where
  "sample_equirect ldr x y z =
     (let h = int (rows ldr); w = int (cols ldr)
      in if np_norm x y z = 0 then Inl ValueError
         else (case pixel_index h w (x, y, z) of
                 (py, px) \<Rightarrow> np_getitem ldr py px))"

subsection \<open>The six faces (lines 55-107)\<close>

datatype face = PosX | NegX | PosY | NegY | PosZ | NegZ

fun face_name :: "face \<Rightarrow> string" where
  "face_name PosX = ''right''"
| "face_name NegX = ''left''"
| "face_name PosY = ''top''"
| "face_name NegY = ''bottom''"
| "face_name PosZ = ''front''"
| "face_name NegZ = ''back''"

text \<open>
  The arguments of \<open>sample_equirect\<close> in lines 61, 70, 79, 88, 97 and 106. The numbers
  \<open>u\<close> and \<open>v\<close> are results of a subtraction, whose zero is the positive one.
\<close>

fun direction :: "face \<Rightarrow> real \<Rightarrow> real \<Rightarrow> f64 \<times> f64 \<times> f64" where
  "direction PosX u v = (F64 1, fneg (F64 v), fneg (F64 u))"
| "direction NegX u v = (F64 (- 1), fneg (F64 v), F64 u)"
| "direction PosY u v = (F64 u, F64 1, F64 v)"
| "direction NegY u v = (F64 u, F64 (- 1), fneg (F64 v))"
| "direction PosZ u v = (F64 u, fneg (F64 v), F64 1)"
| "direction NegZ u v = (fneg (F64 u), fneg (F64 v), F64 (- 1))"

definition pixel_coord :: "int \<Rightarrow> nat \<Rightarrow> real" where
  "pixel_coord face_size k = (real k + 0.5) / real_of_int face_size * 2 - 1"

text \<open>The body of the loops, lines 59-61: the pixel stored at \<open>face[i, j]\<close>.\<close>

definition sample_pixel :: "rgb8 ndarray \<Rightarrow> face \<Rightarrow> int \<Rightarrow> nat \<Rightarrow> nat \<Rightarrow> error + rgb8" where
  "sample_pixel ldr f face_size i j =
     (let u = pixel_coord face_size j;
          v = pixel_coord face_size i
      in case direction f u v of (x, y, z) \<Rightarrow> sample_equirect ldr x y z)"

text \<open>The inner loop \<open>for j in range(face_size)\<close>, and the outer one over \<open>i\<close>.\<close>

fun fill_row :: "rgb8 ndarray \<Rightarrow> face \<Rightarrow> int \<Rightarrow> nat \<Rightarrow> nat list \<Rightarrow> rgb8 ndarray
                   \<Rightarrow> error + rgb8 ndarray" where
  "fill_row ldr f face_size i [] buf = Inr buf"
| "fill_row ldr f face_size i (j # js) buf =
     (case sample_pixel ldr f face_size i j of
        Inl e \<Rightarrow> Inl e
      | Inr p \<Rightarrow>
          (case np_setitem buf i j p of
             Inl e \<Rightarrow> Inl e
           | Inr buf' \<Rightarrow> fill_row ldr f face_size i js buf'))"

fun fill_face :: "rgb8 ndarray \<Rightarrow> face \<Rightarrow> int \<Rightarrow> nat list \<Rightarrow> rgb8 ndarray
                    \<Rightarrow> error + rgb8 ndarray" where
  "fill_face ldr f face_size [] buf = Inr buf"
| "fill_face ldr f face_size (i # is) buf =
     (case fill_row ldr f face_size i [0..<nat face_size] buf of
        Inl e \<Rightarrow> Inl e
      | Inr buf' \<Rightarrow> fill_face ldr f face_size is buf')"

definition make_face :: "rgb8 ndarray \<Rightarrow> int \<Rightarrow> face \<Rightarrow> error + rgb8 ndarray" where
  "make_face ldr face_size f =
     (case np_zeros face_size of
        Inl e \<Rightarrow> Inl e
      | Inr buf \<Rightarrow> fill_face ldr f face_size [0..<nat face_size] buf)"

text \<open>The six blocks in the order of the source; the result is the dict \<open>faces\<close>.\<close>

fun make_faces :: "rgb8 ndarray \<Rightarrow> int \<Rightarrow> face list
                     \<Rightarrow> error + (string \<times> rgb8 ndarray) list" where
  "make_faces ldr face_size [] = Inr []"
| "make_faces ldr face_size (f # fs) =
     (case make_face ldr face_size f of
        Inl e \<Rightarrow> Inl e
      | Inr img \<Rightarrow>
          (case make_faces ldr face_size fs of
             Inl e \<Rightarrow> Inl e
           | Inr rest \<Rightarrow> Inr ((face_name f, img) # rest)))"

definition all_faces :: "face list" where
  "all_faces = [PosX, NegX, PosY, NegY, PosZ, NegZ]"

text \<open>
  Lines 16-107 of \<open>exr_to_cubemap\<close>, from the stacked array \<open>hdr\<close> of shape
  \<open>(height, width, 3)\<close> to the dict of faces.
\<close>

definition project_faces :: "arith32 \<Rightarrow> rgbf ndarray \<Rightarrow> int option
                               \<Rightarrow> error + (string \<times> rgb8 ndarray) list" where
  "project_faces ar hdr size_arg =
     (let height = int (rows hdr);
          face_size = resolve height size_arg;
          ldr = tonemap ar hdr
      in make_faces ldr face_size all_faces)"

subsection \<open>Saving (lines 112-114)\<close>

text \<open>
  \<open>cv2.cvtColor(img, cv2.COLOR_BGR2RGB)\<close> exchanges the first and the third channel; on
  an array without pixels it raises \<open>cv2.error\<close>.
\<close>

definition cvtColor_BGR2RGB :: "rgb8 ndarray \<Rightarrow> error + rgb8 ndarray" where
  "cvtColor_BGR2RGB img =
     (if rows img = 0 \<or> cols img = 0 then Inl Cv2Error
      else Inr (img\<lparr>item := (\<lambda>i j. case item img i j of (c0, c1, c2) \<Rightarrow> (c2, c1, c0))\<rparr>))"

text \<open>
  The loop over the faces: the arrays handed to \<open>Image.fromarray\<close>, which reads the
  channels as R, G, B, with the names of the files. The first error ends the run. The
  encoder and the file system are not part of the model.
\<close>

fun save_faces :: "(string \<times> rgb8 ndarray) list \<Rightarrow> error + (string \<times> rgb8 ndarray) list" where
  "save_faces [] = Inr []"
| "save_faces ((name, img) # rest) =
     (case cvtColor_BGR2RGB img of
        Inl e \<Rightarrow> Inl e
      | Inr img_rgb \<Rightarrow>
          (case save_faces rest of
             Inl e \<Rightarrow> Inl e
           | Inr saved \<Rightarrow> Inr ((name @ ''.jpg'', img_rgb) # saved)))"

text \<open>The whole of \<open>exr_to_cubemap\<close> after the file is read: lines 16-115.\<close>

definition exr_to_cubemap :: "arith32 \<Rightarrow> rgbf ndarray \<Rightarrow> int option
                                \<Rightarrow> error + (string \<times> rgb8 ndarray) list" where
  "exr_to_cubemap ar hdr size_arg =
     (case project_faces ar hdr size_arg of
        Inl e \<Rightarrow> Inl e
      | Inr faces \<Rightarrow> save_faces faces)"

subsection \<open>Example inputs\<close>

text \<open>An array of shape \<open>(h, w, 3)\<close> holding the same triple everywhere.\<close>

definition constant_image :: "nat \<Rightarrow> nat \<Rightarrow> 'a \<Rightarrow> 'a ndarray" where
  "constant_image h w c = \<lparr>rows = h, cols = w, item = (\<lambda>i j. c)\<rparr>"

text \<open>An array whose pixel at row \<open>i\<close>, column \<open>j\<close> is \<open>(i, j, 0)\<close>.\<close>

definition index_image :: "nat \<Rightarrow> nat \<Rightarrow> rgb8 ndarray" where
  "index_image h w = \<lparr>rows = h, cols = w, item = (\<lambda>i j. (of_nat i, of_nat j, 0))\<rparr>"

text \<open>
  A panorama of channels 0.0 and 1.0 whose pixel at row \<open>i\<close>, column \<open>j\<close> is red in the
  odd rows, green in the columns 2 and 3 modulo 4, and blue in the odd columns.
\<close>

definition marker_panorama :: "nat \<Rightarrow> nat \<Rightarrow> rgbf ndarray" where
  "marker_panorama h w =
     \<lparr>rows = h, cols = w,
      item = (\<lambda>i j. (Finite (if odd i then 1 else 0),
                      Finite (if 2 \<le> j mod 4 then 1 else 0),
                      Finite (if odd j then 1 else 0)))\<rparr>"

text \<open>
  The arithmetic without rounding. On the channels 0.0 and 1.0 the single-precision
  operations of lines 32-34 are exact, so it gives the bytes of the program there.
\<close>

definition exact32 :: arith32 where
  "exact32 = \<lparr>mul32 = (\<lambda>a b. Finite (a * b)), pow32 = (\<lambda>a p. a powr p),
              cast_nonfinite = (\<lambda>x. 0)\<rparr>"

subsection \<open>The inverse spherical mapping of the specification\<close>

text \<open>
  Not part of the program: the specification's inverse of the texture coordinates, with
  the glossary's convention that the horizontal coordinate is the longitude in
  \<open>-\<pi>..\<pi>\<close> and the vertical one the latitude from \<open>\<pi>/2\<close> down to \<open>-\<pi>/2\<close>.
\<close>

definition spec_inverse_spherical :: "real \<times> real \<Rightarrow> real \<times> real \<times> real" where
  "spec_inverse_spherical t =
     (case t of
        (texU, texV) \<Rightarrow>
          (let lon = (texU - 0.5) * (2 * pi);
               lat = (0.5 - texV) * pi
           in (cos lat * sin lon, sin lat, cos lat * cos lon)))"

section \<open>Properties\<close>

subsection \<open>Doubles, angles and indices\<close>

lemma val_fneg: "val (fneg x) = - val x"
  by (cases x) simp_all

lemma val_fdiv: "val (fdiv x n) = val x / n"
  by (cases x) simp_all


lemma np_norm_nonneg: "0 \<le> np_norm x y z"
  by (simp add: np_norm_def)

lemma np_norm_eq_0: "np_norm x y z = 0 \<longleftrightarrow> val x = 0 \<and> val y = 0 \<and> val z = 0"
  unfolding np_norm_def by (simp add: add_nonneg_eq_0_iff)

lemma np_norm_pos: "np_norm x y z \<noteq> 0 \<Longrightarrow> 0 < np_norm x y z"
  using np_norm_nonneg [of x y z] by simp

lemma abs_le_np_norm: "\<bar>val y\<bar> \<le> np_norm x y z"
proof -
  have "(val y)\<^sup>2 \<le> (val x)\<^sup>2 + (val y)\<^sup>2 + (val z)\<^sup>2" by simp
  then have "sqrt ((val y)\<^sup>2) \<le> sqrt ((val x)\<^sup>2 + (val y)\<^sup>2 + (val z)\<^sup>2)"
    by (rule real_sqrt_le_mono)
  then show ?thesis by (simp add: np_norm_def)
qed

lemma np_arctan2_cases:
  obtains (right) "0 < val x" "np_arctan2 y x = arctan (val y / val x)"
  | (left_up) "val x < 0" "\<not> signbit y" "np_arctan2 y x = arctan (val y / val x) + pi"
  | (left_down) "val x < 0" "signbit y" "np_arctan2 y x = arctan (val y / val x) - pi"
  | (up) "val x = 0" "0 < val y" "np_arctan2 y x = pi / 2"
  | (down) "val x = 0" "val y < 0" "np_arctan2 y x = - (pi / 2)"
  | (origin_pos) "val x = 0" "val y = 0" "x \<noteq> NegZero" "np_arctan2 y x = 0"
  | (origin_neg_up) "val x = 0" "val y = 0" "x = NegZero" "\<not> signbit y" "np_arctan2 y x = pi"
  | (origin_neg_down) "val x = 0" "val y = 0" "x = NegZero" "signbit y" "np_arctan2 y x = - pi"
proof -
  consider "0 < val x" | "val x < 0" | "val x = 0" by linarith
  then show thesis
  proof cases
    case 1 then show ?thesis using right by (simp add: np_arctan2_def)
  next
    case 2 then show ?thesis using left_up left_down by (cases "signbit y") (simp_all add: np_arctan2_def)
  next
    case 3
    consider "0 < val y" | "val y < 0" | "val y = 0" by linarith
    then show ?thesis
    proof cases
      case 1 then show ?thesis using 3 up by (simp add: np_arctan2_def)
    next
      case 2 then show ?thesis using 3 down by (simp add: np_arctan2_def)
    next
      case z: 3
      show ?thesis
      proof (cases "x = NegZero")
        case True
        then show ?thesis using 3 z origin_neg_up origin_neg_down
          by (cases "signbit y") (simp_all add: np_arctan2_def)
      next
        case False
        then show ?thesis using 3 z origin_pos by (simp add: np_arctan2_def)
      qed
    qed
  qed
qed

lemma signbit_val: "signbit y \<Longrightarrow> val y \<le> 0" "\<not> signbit y \<Longrightarrow> 0 \<le> val y"
  by (cases y; simp)+

lemma np_arctan2_bounds: "- pi \<le> np_arctan2 y x \<and> np_arctan2 y x \<le> pi"
proof -
  have b: "- (pi / 2) < arctan (val y / val x)" "arctan (val y / val x) < pi / 2"
    by (rule arctan_lbound, rule arctan_ubound)
  have p: "0 < pi" by simp
  show ?thesis
  proof (cases y x rule: np_arctan2_cases)
    case right
    then show ?thesis using b p by linarith
  next
    case left_up
    then have "val y / val x \<le> 0" using signbit_val(2) [of y] by (simp add: divide_nonneg_neg)
    then have "arctan (val y / val x) \<le> 0" by (simp add: arctan_le_zero_iff)
    then show ?thesis using left_up b p by linarith
  next
    case left_down
    then have "0 \<le> val y / val x" using signbit_val(1) [of y] by (simp add: divide_nonpos_neg)
    then have "0 \<le> arctan (val y / val x)" by (simp add: zero_le_arctan_iff)
    then show ?thesis using left_down b p by linarith
  qed (use p in linarith)+
qed


lemma sqrt_sum_squares_factor:
  assumes "b \<noteq> 0"
  shows "sqrt (a\<^sup>2 + b\<^sup>2) = \<bar>b\<bar> * sqrt (1 + (a / b)\<^sup>2)"
proof -
  have "a\<^sup>2 + b\<^sup>2 = b\<^sup>2 * (1 + (a / b)\<^sup>2)"
    using assms by (simp add: power_divide distrib_left)
  then show ?thesis by (simp add: real_sqrt_mult)
qed

lemma np_arctan2_polar:
  "sqrt ((val a)\<^sup>2 + (val b)\<^sup>2) * sin (np_arctan2 a b) = val a \<and>
   sqrt ((val a)\<^sup>2 + (val b)\<^sup>2) * cos (np_arctan2 a b) = val b"
proof -
  define s where "s = sqrt (1 + (val a / val b)\<^sup>2)"
  have spos: "0 < s" unfolding s_def by (simp add: add_pos_nonneg)
  have c: "cos (arctan (val a / val b)) = 1 / s"
    and sn: "sin (arctan (val a / val b)) = (val a / val b) / s"
    by (simp_all add: cos_arctan sin_arctan s_def)
  show ?thesis
  proof (cases a b rule: np_arctan2_cases)
    case right
    then have r: "sqrt ((val a)\<^sup>2 + (val b)\<^sup>2) = val b * s"
      using sqrt_sum_squares_factor [of "val b" "val a"] by (simp add: s_def)
    show ?thesis unfolding r right(2) c sn using right(1) spos by simp
  next
    case left_up
    then have r: "sqrt ((val a)\<^sup>2 + (val b)\<^sup>2) = - val b * s"
      using sqrt_sum_squares_factor [of "val b" "val a"] by (simp add: s_def)
    have "sin (np_arctan2 a b) = - sin (arctan (val a / val b))"
        "cos (np_arctan2 a b) = - cos (arctan (val a / val b))"
      unfolding left_up(3) by simp_all
    then show ?thesis unfolding r c sn using left_up(1) spos by simp
  next
    case left_down
    then have r: "sqrt ((val a)\<^sup>2 + (val b)\<^sup>2) = - val b * s"
      using sqrt_sum_squares_factor [of "val b" "val a"] by (simp add: s_def)
    have "sin (np_arctan2 a b) = - sin (arctan (val a / val b))"
        "cos (np_arctan2 a b) = - cos (arctan (val a / val b))"
      unfolding left_down(3) by (simp_all add: sin_diff cos_diff)
    then show ?thesis unfolding r c sn using left_down(1) spos by simp
  next
    case up then show ?thesis unfolding up(3) by simp
  next
    case down then show ?thesis unfolding down(3) by simp
  qed simp_all
qed


lemma py_int_floor: "0 \<le> x \<Longrightarrow> py_int x = \<lfloor>x\<rfloor>"
  by (simp add: py_int_def)

lemma py_int_scaled_range:
  assumes "0 \<le> t" "t \<le> 1" "0 \<le> n"
  shows "0 \<le> py_int (t * real_of_int n) \<and> py_int (t * real_of_int n) \<le> n"
proof -
  have nn: "0 \<le> t * real_of_int n" using assms by simp
  have "t * real_of_int n \<le> 1 * real_of_int n"
    using assms by (intro mult_right_mono) simp_all
  then have le: "t * real_of_int n \<le> real_of_int n" by simp
  have "\<lfloor>t * real_of_int n\<rfloor> \<le> \<lfloor>real_of_int n\<rfloor>" using le by (rule floor_mono)
  then have "\<lfloor>t * real_of_int n\<rfloor> \<le> n" by simp
  moreover have "0 \<le> \<lfloor>t * real_of_int n\<rfloor>" using nn by simp
  ultimately show ?thesis using nn by (simp add: py_int_floor)
qed

lemma np_axis_in_range: "0 \<le> i \<Longrightarrow> i < int n \<Longrightarrow> np_axis n i = Inr (nat i)"
  by (simp add: np_axis_def)

lemma np_getitem_in_range:
  "0 \<le> py \<Longrightarrow> py < int (rows a) \<Longrightarrow> 0 \<le> px \<Longrightarrow> px < int (cols a)
   \<Longrightarrow> np_getitem a py px = Inr (item a (nat py) (nat px))"
  by (simp add: np_getitem_def np_axis_in_range)

lemma normalize_eq:
  "normalize (x, y, z) = (fdiv x (np_norm x y z), fdiv y (np_norm x y z), fdiv z (np_norm x y z))"
  by (simp add: normalize_def Let_def)

lemma normalize_component_bound:
  assumes "np_norm x y z \<noteq> 0"
  shows "- 1 \<le> val y / np_norm x y z \<and> val y / np_norm x y z \<le> 1"
proof -
  have pos: "0 < np_norm x y z" using assms by (rule np_norm_pos)
  have "\<bar>val y\<bar> \<le> np_norm x y z" by (rule abs_le_np_norm)
  then have "- np_norm x y z \<le> val y" "val y \<le> np_norm x y z" by linarith+
  then show ?thesis using pos by (simp add: pos_le_divide_eq pos_divide_le_eq)
qed

lemma tex_coords_range:
  assumes "- 1 \<le> val b" "val b \<le> 1" "tex_coords (a, b, c) = (u, v)"
  shows "0 \<le> u \<and> u \<le> 1 \<and> 0 \<le> v \<and> v \<le> 1"
proof -
  have p: "0 < pi" by simp
  have u: "u = 0.5 + np_arctan2 a c / (2 * pi)" and v: "v = 0.5 - arcsin (val b) / pi"
    using assms(3) by (simp_all add: tex_coords_def)
  have "- pi \<le> np_arctan2 a c" "np_arctan2 a c \<le> pi"
    using np_arctan2_bounds [of a c] by simp_all
  then have "- (1 / 2) \<le> np_arctan2 a c / (2 * pi)" "np_arctan2 a c / (2 * pi) \<le> 1 / 2"
    using p by (simp_all add: pos_le_divide_eq pos_divide_le_eq)
  then have ub: "0 \<le> u" "u \<le> 1" unfolding u by linarith+
  have "- (pi / 2) \<le> arcsin (val b)" "arcsin (val b) \<le> pi / 2"
    using assms(1,2) by (rule arcsin_lbound, rule arcsin_ubound)
  then have "- (1 / 2) \<le> arcsin (val b) / pi" "arcsin (val b) / pi \<le> 1 / 2"
    using p by (simp_all add: pos_le_divide_eq pos_divide_le_eq)
  then have "0 \<le> v" "v \<le> 1" unfolding v by linarith+
  with ub show ?thesis by simp
qed

lemma pixel_index_range:
  assumes nz: "np_norm x y z \<noteq> 0" and h: "1 \<le> h" and w: "1 \<le> w"
    and pi: "pixel_index h w (x, y, z) = (py, px)"
  shows "0 \<le> py \<and> py \<le> h - 1 \<and> 0 \<le> px \<and> px \<le> w - 1"
proof -
  obtain u v where uv: "tex_coords (normalize (x, y, z)) = (u, v)"
    by (cases "tex_coords (normalize (x, y, z))")
  have r: "0 \<le> u \<and> u \<le> 1 \<and> 0 \<le> v \<and> v \<le> 1"
    using normalize_component_bound [OF nz] uv unfolding normalize_eq
    by (intro tex_coords_range [of "fdiv y (np_norm x y z)"]) (simp_all add: val_fdiv)
  have px: "px = py_int (u * real_of_int (w - 1))" and py: "py = py_int (v * real_of_int (h - 1))"
    using pi uv by (simp_all add: pixel_index_def)
  show ?thesis
    using py_int_scaled_range [of u "w - 1"] py_int_scaled_range [of v "h - 1"] r h w
    unfolding px py by simp
qed

lemma sample_equirect_in_range:
  assumes nz: "np_norm x y z \<noteq> 0" and h: "1 \<le> rows ldr" and w: "1 \<le> cols ldr"
    and pi: "pixel_index (int (rows ldr)) (int (cols ldr)) (x, y, z) = (py, px)"
  shows "sample_equirect ldr x y z = Inr (item ldr (nat py) (nat px))"
proof -
  have r: "0 \<le> py \<and> py \<le> int (rows ldr) - 1 \<and> 0 \<le> px \<and> px \<le> int (cols ldr) - 1"
    using nz _ _ pi by (rule pixel_index_range) (use h w in simp_all)
  have "sample_equirect ldr x y z = np_getitem ldr py px"
    using pi nz by (simp add: sample_equirect_def)
  also have "\<dots> = Inr (item ldr (nat py) (nat px))"
    using r by (intro np_getitem_in_range) simp_all
  finally show ?thesis .
qed

lemma direction_nonzero: "direction f u v = (x, y, z) \<Longrightarrow> np_norm x y z \<noteq> 0"
  by (cases f) (auto simp: np_norm_eq_0 val_fneg)


subsection \<open>The face loops\<close>

lemma sample_pixel_ok:
  assumes "1 \<le> rows ldr" and "1 \<le> cols ldr"
  shows "\<exists>p. sample_pixel ldr f face_size i j = Inr p"
proof -
  obtain x y z where d: "direction f (pixel_coord face_size j) (pixel_coord face_size i) = (x, y, z)"
    by (metis prod_cases3)
  obtain py px where pi: "pixel_index (int (rows ldr)) (int (cols ldr)) (x, y, z) = (py, px)"
    by (cases "pixel_index (int (rows ldr)) (int (cols ldr)) (x, y, z)")
  have nz: "np_norm x y z \<noteq> 0" using d by (rule direction_nonzero)
  have "sample_equirect ldr x y z = Inr (item ldr (nat py) (nat px))"
    using nz assms pi by (rule sample_equirect_in_range)
  then show ?thesis by (simp add: sample_pixel_def d del: split_paired_Ex)
qed

lemma np_setitem_in_range:
  assumes "i < rows a" and "j < cols a"
  shows "\<exists>a'. np_setitem a i j p = Inr a' \<and> rows a' = rows a \<and> cols a' = cols a \<and>
           (\<forall>i' j'. item a' i' j' = (if i' = i \<and> j' = j then p else item a i' j'))"
  using assms by (simp add: np_setitem_def)

lemma fill_row_result:
  assumes ok: "\<And>j. \<exists>p. sample_pixel ldr f face_size i j = Inr p"
    and i: "i < rows buf" and js: "\<forall>j\<in>set js. j < cols buf"
  shows "\<exists>buf'. fill_row ldr f face_size i js buf = Inr buf' \<and>
           rows buf' = rows buf \<and> cols buf' = cols buf \<and>
           (\<forall>i' j'. if i' = i \<and> j' \<in> set js
                    then Inr (item buf' i' j') = sample_pixel ldr f face_size i j'
                    else item buf' i' j' = item buf i' j')"
  using i js
proof (induction js arbitrary: buf)
  case Nil
  show ?case by simp
next
  case (Cons j js)
  obtain p where p: "sample_pixel ldr f face_size i j = Inr p" using ok by blast
  have j: "j < cols buf" using Cons.prems(2) by simp
  obtain buf1 where s: "np_setitem buf i j p = Inr buf1" "rows buf1 = rows buf"
      "cols buf1 = cols buf"
      "\<forall>i' j'. item buf1 i' j' = (if i' = i \<and> j' = j then p else item buf i' j')"
    using np_setitem_in_range [OF Cons.prems(1) j, of p] by blast
  have "i < rows buf1" "\<forall>j\<in>set js. j < cols buf1" using Cons.prems s(2,3) by simp_all
  then obtain buf' where b: "fill_row ldr f face_size i js buf1 = Inr buf'"
      "rows buf' = rows buf1" "cols buf' = cols buf1"
      "\<forall>i' j'. if i' = i \<and> j' \<in> set js
                then Inr (item buf' i' j') = sample_pixel ldr f face_size i j'
                else item buf' i' j' = item buf1 i' j'"
    using Cons.IH [of buf1] by blast
  have "fill_row ldr f face_size i (j # js) buf = Inr buf'" using p s(1) b(1) by simp
  moreover have "rows buf' = rows buf" "cols buf' = cols buf"
    using b(2,3) s(2,3) by simp_all
  moreover have "if i' = i \<and> j' \<in> set (j # js)
                then Inr (item buf' i' j') = sample_pixel ldr f face_size i j'
                else item buf' i' j' = item buf i' j'" for i' j'
    using b(4) [rule_format, of i' j'] s(4) [rule_format, of i' j'] p
    by (auto split: if_splits)
  ultimately show ?case by blast
qed

lemma fill_face_result:
  assumes ok: "\<And>i j. \<exists>p. sample_pixel ldr f face_size i j = Inr p"
    and "is": "\<forall>i\<in>set is. i < rows buf" and c: "nat face_size \<le> cols buf"
  shows "\<exists>buf'. fill_face ldr f face_size is buf = Inr buf' \<and>
           rows buf' = rows buf \<and> cols buf' = cols buf \<and>
           (\<forall>i' j'. if i' \<in> set is \<and> j' < nat face_size
                    then Inr (item buf' i' j') = sample_pixel ldr f face_size i' j'
                    else item buf' i' j' = item buf i' j')"
  using "is" c
proof (induction "is" arbitrary: buf)
  case Nil
  show ?case by simp
next
  case (Cons i "is")
  have i: "i < rows buf" and js: "\<forall>j\<in>set [0..<nat face_size]. j < cols buf"
    using Cons.prems by simp_all
  obtain buf1 where r: "fill_row ldr f face_size i [0..<nat face_size] buf = Inr buf1"
      "rows buf1 = rows buf" "cols buf1 = cols buf"
      "\<forall>i' j'. if i' = i \<and> j' \<in> set [0..<nat face_size]
                then Inr (item buf1 i' j') = sample_pixel ldr f face_size i j'
                else item buf1 i' j' = item buf i' j'"
    using fill_row_result [of ldr f face_size i buf "[0..<nat face_size]", OF ok i js] by blast
  have "\<forall>i\<in>set is. i < rows buf1" "nat face_size \<le> cols buf1"
    using Cons.prems r(2,3) by simp_all
  then obtain buf' where b: "fill_face ldr f face_size is buf1 = Inr buf'"
      "rows buf' = rows buf1" "cols buf' = cols buf1"
      "\<forall>i' j'. if i' \<in> set is \<and> j' < nat face_size
                then Inr (item buf' i' j') = sample_pixel ldr f face_size i' j'
                else item buf' i' j' = item buf1 i' j'"
    using Cons.IH [of buf1] by blast
  have "fill_face ldr f face_size (i # is) buf = Inr buf'" using r(1) b(1) by simp
  moreover have "rows buf' = rows buf" "cols buf' = cols buf" using r(2,3) b(2,3) by simp_all
  moreover have "if i' \<in> set (i # is) \<and> j' < nat face_size
                then Inr (item buf' i' j') = sample_pixel ldr f face_size i' j'
                else item buf' i' j' = item buf i' j'" for i' j'
    using b(4) [rule_format, of i' j'] r(4) [rule_format, of i' j'] by (auto split: if_splits)
  ultimately show ?case by blast
qed

lemma make_face_result:
  assumes "1 \<le> rows ldr" and "1 \<le> cols ldr" and "0 \<le> face_size"
  shows "\<exists>img. make_face ldr face_size f = Inr img \<and>
           rows img = nat face_size \<and> cols img = nat face_size \<and>
           (\<forall>i j. if i < nat face_size \<and> j < nat face_size
                  then Inr (item img i j) = sample_pixel ldr f face_size i j
                  else item img i j = (0, 0, 0))"
proof -
  define z :: "rgb8 ndarray"
    where "z = \<lparr>rows = nat face_size, cols = nat face_size, item = (\<lambda>i j. (0, 0, 0))\<rparr>"
  have nz: "np_zeros face_size = Inr z" using assms(3) by (simp add: np_zeros_def z_def)
  have ok: "\<And>i j. \<exists>p. sample_pixel ldr f face_size i j = Inr p"
    using assms(1,2) by (rule sample_pixel_ok)
  have sh: "\<forall>i\<in>set [0..<nat face_size]. i < rows z" "nat face_size \<le> cols z"
    by (simp_all add: z_def)
  obtain img where b: "fill_face ldr f face_size [0..<nat face_size] z = Inr img"
      "rows img = rows z" "cols img = cols z"
      "\<forall>i' j'. if i' \<in> set [0..<nat face_size] \<and> j' < nat face_size
                then Inr (item img i' j') = sample_pixel ldr f face_size i' j'
                else item img i' j' = item z i' j'"
    using fill_face_result [of ldr f face_size "[0..<nat face_size]" z, OF ok sh] by blast
  have "make_face ldr face_size f = Inr img" using nz b(1) by (simp add: make_face_def)
  moreover have "rows img = nat face_size" "cols img = nat face_size"
    using b(2,3) by (simp_all add: z_def)
  moreover have "if i < nat face_size \<and> j < nat face_size
                then Inr (item img i j) = sample_pixel ldr f face_size i j
                else item img i j = (0, 0, 0)" for i j
    using b(4) [rule_format, of i j] by (auto simp: z_def split: if_splits)
  ultimately show ?thesis by blast
qed

lemma project_faces_result:
  assumes "1 \<le> rows hdr" and "1 \<le> cols hdr"
    and "0 \<le> resolve (int (rows hdr)) size_arg"
  shows "\<exists>f1 f2 f3 f4 f5 f6.
           project_faces ar hdr size_arg =
             Inr [(''right'', f1), (''left'', f2), (''top'', f3),
                  (''bottom'', f4), (''front'', f5), (''back'', f6)] \<and>
           make_face (tonemap ar hdr) (resolve (int (rows hdr)) size_arg) PosX = Inr f1 \<and>
           make_face (tonemap ar hdr) (resolve (int (rows hdr)) size_arg) NegX = Inr f2 \<and>
           make_face (tonemap ar hdr) (resolve (int (rows hdr)) size_arg) PosY = Inr f3 \<and>
           make_face (tonemap ar hdr) (resolve (int (rows hdr)) size_arg) NegY = Inr f4 \<and>
           make_face (tonemap ar hdr) (resolve (int (rows hdr)) size_arg) PosZ = Inr f5 \<and>
           make_face (tonemap ar hdr) (resolve (int (rows hdr)) size_arg) NegZ = Inr f6"
proof -
  define ldr where "ldr = tonemap ar hdr"
  define n where "n = resolve (int (rows hdr)) size_arg"
  have s: "1 \<le> rows ldr" "1 \<le> cols ldr" using assms(1,2) by (simp_all add: ldr_def tonemap_def)
  have ex: "\<exists>img. make_face ldr n f = Inr img" for f
    using make_face_result [OF s, of n f] assms(3) by (auto simp: n_def)
  obtain f1 f2 f3 f4 f5 f6 where m:
    "make_face ldr n PosX = Inr f1" "make_face ldr n NegX = Inr f2"
    "make_face ldr n PosY = Inr f3" "make_face ldr n NegY = Inr f4"
    "make_face ldr n PosZ = Inr f5" "make_face ldr n NegZ = Inr f6"
    using ex by metis
  have "project_faces ar hdr size_arg =
          Inr [(''right'', f1), (''left'', f2), (''top'', f3),
               (''bottom'', f4), (''front'', f5), (''back'', f6)]"
    unfolding project_faces_def Let_def all_faces_def ldr_def [symmetric] n_def [symmetric]
    by (simp add: m)
  then show ?thesis using m unfolding ldr_def n_def by blast
qed

lemma sample_pixel_constant_image:
  assumes "1 \<le> h" and "1 \<le> w"
  shows "sample_pixel (constant_image h w c) f face_size i j = Inr c"
proof -
  let ?L = "constant_image h w c"
  obtain x y z where d: "direction f (pixel_coord face_size j) (pixel_coord face_size i) = (x, y, z)"
    by (metis prod_cases3)
  obtain py px where pi: "pixel_index (int (rows ?L)) (int (cols ?L)) (x, y, z) = (py, px)"
    by (cases "pixel_index (int (rows ?L)) (int (cols ?L)) (x, y, z)")
  have nz: "np_norm x y z \<noteq> 0" using d by (rule direction_nonzero)
  have s: "1 \<le> rows ?L" "1 \<le> cols ?L" using assms by (simp_all add: constant_image_def)
  have "sample_equirect ?L x y z = Inr (item ?L (nat py) (nat px))"
    using nz s pi by (rule sample_equirect_in_range)
  then show ?thesis by (simp add: sample_pixel_def d constant_image_def)
qed

subsection \<open>Saving\<close>

lemma save_faces_nonempty:
  assumes "\<forall>(name, img)\<in>set faces. rows img \<noteq> 0 \<and> cols img \<noteq> 0"
  shows "\<exists>saved. save_faces faces = Inr saved"
  using assms
proof (induction faces)
  case Nil
  show ?case by simp
next
  case (Cons a faces)
  obtain name img where a: "a = (name, img)" by (cases a)
  have "rows img \<noteq> 0 \<and> cols img \<noteq> 0" using Cons.prems a by simp
  moreover obtain saved where "save_faces faces = Inr saved" using Cons by auto
  ultimately show ?case by (simp add: a cvtColor_BGR2RGB_def)
qed

lemma exr_to_cubemap_succeeds:
  assumes "1 \<le> rows hdr" and "1 \<le> cols hdr"
    and "1 \<le> resolve (int (rows hdr)) size_arg"
  shows "\<exists>saved. exr_to_cubemap ar hdr size_arg = Inr saved"
proof -
  define ldr where "ldr = tonemap ar hdr"
  define n where "n = resolve (int (rows hdr)) size_arg"
  have s: "1 \<le> rows ldr" "1 \<le> cols ldr" using assms(1,2) by (simp_all add: ldr_def tonemap_def)
  have n: "0 \<le> n" "nat n \<noteq> 0" using assms(3) by (simp_all add: n_def)
  have sh: "rows img \<noteq> 0 \<and> cols img \<noteq> 0" if "make_face ldr n f = Inr img" for f img
    using make_face_result [OF s n(1), of f] that n(2) by auto
  obtain f1 f2 f3 f4 f5 f6 where e:
    "project_faces ar hdr size_arg =
       Inr [(''right'', f1), (''left'', f2), (''top'', f3),
            (''bottom'', f4), (''front'', f5), (''back'', f6)]"
    "make_face ldr n PosX = Inr f1" "make_face ldr n NegX = Inr f2"
    "make_face ldr n PosY = Inr f3" "make_face ldr n NegY = Inr f4"
    "make_face ldr n PosZ = Inr f5" "make_face ldr n NegZ = Inr f6"
    using project_faces_result [OF assms(1,2), of size_arg ar] n(1)
    unfolding ldr_def n_def by blast
  have "\<exists>saved. save_faces [(''right'', f1), (''left'', f2), (''top'', f3),
            (''bottom'', f4), (''front'', f5), (''back'', f6)] = Inr saved"
    using sh [OF e(2)] sh [OF e(3)] sh [OF e(4)] sh [OF e(5)] sh [OF e(6)] sh [OF e(7)]
    by (intro save_faces_nonempty) simp
  then show ?thesis by (simp add: exr_to_cubemap_def e(1))
qed

subsection \<open>Tonemapped values\<close>

lemma ieee32_exact32: "ieee32 exact32"
  by (simp add: ieee32_def exact32_def powr_le1)

lemma np_clip_unit:
  assumes "e \<noteq> NaN"
  shows "\<exists>c. np_clip e 0 1 = Finite c \<and> 0 \<le> c \<and> c \<le> 1"
  using assms by (cases e) (simp_all add: np_clip_def)

lemma tonemap_value_finite:
  assumes "ieee32 ar"
  shows "\<exists>c s. np_clip (mul32 ar x 1.5) 0 1 = Finite c \<and> 0 \<le> c \<and> c \<le> 1 \<and>
           mul32 ar (pow32 ar c (1 / 2.2)) 255 = Finite s \<and> 0 \<le> s \<and> s \<le> 255 \<and>
           tonemap_value ar (Finite x) = Finite s"
proof -
  have "mul32 ar x 1.5 \<noteq> NaN" using assms by (simp add: ieee32_def)
  then obtain c where c: "np_clip (mul32 ar x 1.5) 0 1 = Finite c" "0 \<le> c" "c \<le> 1"
    using np_clip_unit by blast
  define g where "g = pow32 ar c (1 / 2.2)"
  have g: "0 \<le> g" "g \<le> 1" using assms c(2,3) unfolding g_def ieee32_def by blast+
  obtain s where s: "mul32 ar g 255 = Finite s" "0 \<le> s" "s \<le> 255"
    using assms g unfolding ieee32_def by blast
  have "tonemap_value ar (Finite x) = Finite s"
    unfolding tonemap_value_def Let_def f32_scale_def f32.case c(1) np_power_def
    using c(2) s(1) by (simp add: g_def)
  then show ?thesis using c s unfolding g_def by blast
qed

lemma uint_astype_uint8:
  assumes "0 \<le> s" and "s \<le> 255"
  shows "uint (astype_uint8 ar (Finite s)) = \<lfloor>s\<rfloor>"
proof -
  have "0 \<le> \<lfloor>s\<rfloor>" using assms by simp
  moreover have "\<lfloor>s\<rfloor> \<le> 255" using assms by (simp add: floor_le_iff)
  ultimately have "take_bit 8 \<lfloor>s\<rfloor> = \<lfloor>s\<rfloor>" by (simp add: take_bit_int_eq_self)
  then show ?thesis using assms by (simp add: astype_uint8_def py_int_floor uint_word_of_int_eq)
qed

lemma tonemap_channel_special:
  assumes "ieee32 ar"
  shows "tonemap_channel ar PosInf = 255" and "tonemap_channel ar NegInf = 0"
    and "tonemap_channel ar NaN = cast_nonfinite ar NaN"
proof -
  have e: "pow32 ar 0 (1 / 2.2) = 0" "pow32 ar 1 (1 / 2.2) = 1"
      "mul32 ar 0 255 = Finite 0" "mul32 ar 1 255 = Finite 255"
    using assms by (simp_all add: ieee32_def)
  show "tonemap_channel ar PosInf = 255"
    unfolding tonemap_channel_def tonemap_value_def Let_def f32_scale_def np_clip_def
      np_power_def astype_uint8_def f32.case
    using e by (simp add: py_int_def)
  show "tonemap_channel ar NegInf = 0"
    unfolding tonemap_channel_def tonemap_value_def Let_def f32_scale_def np_clip_def
      np_power_def astype_uint8_def f32.case
    using e by (simp add: py_int_def)
  show "tonemap_channel ar NaN = cast_nonfinite ar NaN"
    by (simp add: tonemap_channel_def tonemap_value_def f32_scale_def np_clip_def
        np_power_def astype_uint8_def)
qed

lemma tonemap_channel_exact32:
  "tonemap_channel exact32 (Finite 1) = 255" "tonemap_channel exact32 (Finite 0) = 0"
  by (simp_all add: tonemap_channel_def tonemap_value_def f32_scale_def np_clip_def
      np_power_def astype_uint8_def exact32_def py_int_def)

lemma tonemap_constant_image:
  "tonemap ar (constant_image h w c) = constant_image h w (tonemap_pixel ar c)"
  by (simp add: tonemap_def constant_image_def)


subsection \<open>Tonemapper\<close>



text \<open>
  C7: for every finite channel value, negative values and values above 1 included, the
  number that is cast to \<open>uint8\<close> lies in \<open>[0, 255]\<close>, so the cast does not wrap and the
  output channel is that number truncated. On the other inputs the tonemapper returns a
  byte as well: 255 for the positive infinity, 0 for the negative one, the platform's
  byte for a NaN. No step of lines 32-34 raises, and whatever the channels of the
  panorama are, the run on a panorama with pixels and a positive face size ends without
  an error.
\<close>

theorem tonemap_in_range:
  assumes "ieee32 ar"
  shows "(\<exists>s. tonemap_value ar (Finite x) = Finite s \<and> 0 \<le> s \<and> s \<le> 255 \<and>
              uint (tonemap_channel ar (Finite x)) = py_int s \<and>
              0 \<le> py_int s \<and> py_int s \<le> 255) \<and>
         tonemap_channel ar PosInf = 255 \<and>
         tonemap_channel ar NegInf = 0 \<and>
         tonemap_channel ar NaN = cast_nonfinite ar NaN \<and>
         (1 \<le> rows hdr \<and> 1 \<le> cols hdr \<and> 1 \<le> resolve (int (rows hdr)) size_arg \<longrightarrow>
            (\<exists>saved. exr_to_cubemap ar hdr size_arg = Inr saved))"
proof -
  obtain s where s: "tonemap_value ar (Finite x) = Finite s" "0 \<le> s" "s \<le> 255"
    using tonemap_value_finite [OF assms, of x] by blast
  have u: "uint (tonemap_channel ar (Finite x)) = \<lfloor>s\<rfloor>"
    unfolding tonemap_channel_def s(1) using s(2,3) by (rule uint_astype_uint8)
  have "0 \<le> \<lfloor>s\<rfloor>" "\<lfloor>s\<rfloor> \<le> 255" using s(2,3) by (simp_all add: floor_le_iff)
  then have "\<exists>s. tonemap_value ar (Finite x) = Finite s \<and> 0 \<le> s \<and> s \<le> 255 \<and>
              uint (tonemap_channel ar (Finite x)) = py_int s \<and>
              0 \<le> py_int s \<and> py_int s \<le> 255"
    using s u by (auto simp: py_int_floor)
  then show ?thesis
    using tonemap_channel_special(1-3) [OF assms] exr_to_cubemap_succeeds [of hdr size_arg ar]
    by blast
qed

text \<open>
  C7, at concrete inputs: the channel -3.0 gives the number 0 and the byte 0, the
  infinities give 255 and 0, and the run on a 2 by 4 panorama whose pixels are
  \<open>(NaN, +inf, -3.0)\<close> returns the saved faces.
\<close>

theorem tonemap_in_range_witness:
  "ieee32 exact32 \<and>
   tonemap_value exact32 (Finite (- 3)) = Finite 0 \<and>
   uint (tonemap_channel exact32 (Finite (- 3))) = 0 \<and>
   tonemap_channel exact32 PosInf = 255 \<and>
   tonemap_channel exact32 NegInf = 0 \<and>
   tonemap_channel exact32 NaN = 0 \<and>
   1 \<le> rows (constant_image 2 4 (NaN, PosInf, Finite (- 3))) \<and>
   1 \<le> cols (constant_image 2 4 (NaN, PosInf, Finite (- 3))) \<and>
   1 \<le> resolve (int (rows (constant_image 2 4 (NaN, PosInf, Finite (- 3))))) None \<and>
   (\<exists>saved. exr_to_cubemap exact32 (constant_image 2 4 (NaN, PosInf, Finite (- 3))) None
      = Inr saved)"
proof -
  let ?H = "constant_image 2 4 (NaN, PosInf, Finite (- 3))"
  have h: "1 \<le> rows ?H \<and> 1 \<le> cols ?H \<and> 1 \<le> resolve (int (rows ?H)) None"
    by (simp add: constant_image_def resolve_def)
  have v: "tonemap_value exact32 (Finite (- 3)) = Finite 0"
    by (simp add: tonemap_value_def f32_scale_def np_clip_def np_power_def exact32_def)
  have n: "cast_nonfinite exact32 NaN = 0" by (simp add: exact32_def)
  show ?thesis
    using tonemap_in_range [OF ieee32_exact32, of "- 3" ?H None] ieee32_exact32 h v n
    by (simp add: py_int_def)
qed

subsection \<open>Face size\<close>

text \<open>
  C4, as stated, fails: a provided size that is not positive is not replaced by
  \<open>h // 2\<close>. With height 512 and size 0 the face size is 0, not 256.
\<close>

theorem resolve_nonpositive_size_counterexample:
  "resolve 512 (Some 0) = 0 \<and> resolve 512 (Some 0) \<noteq> 512 div 2"
  by (simp add: resolve_def)

text \<open>
  C4, amended: a provided size is returned verbatim whatever its sign, and an absent
  size gives \<open>h // 2\<close>; with height 512 and no size the result is 256, with height 511
  it is 255, and with height 512 and size 100 it is 100.
\<close>

theorem resolve_policy:
  "resolve h (Some s) = s \<and> resolve h None = h div 2 \<and>
   resolve 512 None = 256 \<and> resolve 511 None = 255 \<and> resolve 512 (Some 100) = 100"
  by (simp add: resolve_def)

subsection \<open>Face directions\<close>

text \<open>
  C9: at the face center \<open>u = v = 0\<close> the direction of each face, normalized, is the
  face's axis: right \<open>(1,0,0)\<close>, left \<open>(-1,0,0)\<close>, top \<open>(0,1,0)\<close>, bottom \<open>(0,-1,0)\<close>,
  front \<open>(0,0,1)\<close>, back \<open>(0,0,-1)\<close>. A component that is the negative zero is the
  number 0.
\<close>

theorem face_center_axis:
  "vals (normalize (direction PosX 0 0)) = (1, 0, 0) \<and>
   vals (normalize (direction NegX 0 0)) = (- 1, 0, 0) \<and>
   vals (normalize (direction PosY 0 0)) = (0, 1, 0) \<and>
   vals (normalize (direction NegY 0 0)) = (0, - 1, 0) \<and>
   vals (normalize (direction PosZ 0 0)) = (0, 0, 1) \<and>
   vals (normalize (direction NegZ 0 0)) = (0, 0, - 1)"
  by (simp add: vals_def normalize_def np_norm_def)

subsection \<open>Sampling\<close>



text \<open>
  C10: for every face and every pixel index the direction of the face loops is not the
  zero vector, and on a panorama with \<open>w \<ge> 1\<close> columns and \<open>h \<ge> 1\<close> rows the indices
  computed by \<open>sample_equirect\<close> satisfy \<open>0 \<le> px \<le> w - 1\<close> and \<open>0 \<le> py \<le> h - 1\<close>: the
  lookup \<open>ldr[py, px]\<close> returns a pixel, without IndexError and without a negative index,
  although nothing clamps.
\<close>

theorem face_lookup_in_bounds:
  assumes "1 \<le> rows ldr" and "1 \<le> cols ldr"
    and "direction f (pixel_coord face_size j) (pixel_coord face_size i) = (x, y, z)"
    and "pixel_index (int (rows ldr)) (int (cols ldr)) (x, y, z) = (py, px)"
  shows "vals (x, y, z) \<noteq> (0, 0, 0) \<and>
         0 \<le> px \<and> px \<le> int (cols ldr) - 1 \<and> 0 \<le> py \<and> py \<le> int (rows ldr) - 1 \<and>
         np_getitem ldr py px = Inr (item ldr (nat py) (nat px)) \<and>
         sample_equirect ldr x y z = Inr (item ldr (nat py) (nat px))"
proof -
  have nz: "np_norm x y z \<noteq> 0" using assms(3) by (rule direction_nonzero)
  then have v: "vals (x, y, z) \<noteq> (0, 0, 0)" by (auto simp: np_norm_eq_0 vals_def)
  have r: "0 \<le> py \<and> py \<le> int (rows ldr) - 1 \<and> 0 \<le> px \<and> px \<le> int (cols ldr) - 1"
    using nz _ _ assms(4) by (rule pixel_index_range) (use assms(1,2) in simp_all)
  have g: "np_getitem ldr py px = Inr (item ldr (nat py) (nat px))"
    using r by (intro np_getitem_in_range) simp_all
  have s: "sample_equirect ldr x y z = Inr (item ldr (nat py) (nat px))"
    using nz assms(1,2,4) by (rule sample_equirect_in_range)
  show ?thesis using v r g s by simp
qed

text \<open>
  C10, at a concrete input: the right face of size 1 on a 2 by 4 image reads row 0,
  column 2.
\<close>

theorem face_lookup_in_bounds_witness:
  "1 \<le> rows (index_image 2 4) \<and>
   1 \<le> cols (index_image 2 4) \<and>
   direction PosX (pixel_coord 1 0) (pixel_coord 1 0) = (F64 1, NegZero, NegZero) \<and>
   pixel_index 2 4 (F64 1, NegZero, NegZero) = (0, 2) \<and>
   np_getitem (index_image 2 4) 0 2 = Inr (0, 2, 0)"
proof -
  let ?L = "index_image 2 4"
  have d: "direction PosX (pixel_coord 1 0) (pixel_coord 1 0) = (F64 1, NegZero, NegZero)"
    by (simp add: pixel_coord_def)
  have p: "pixel_index (int (rows ?L)) (int (cols ?L)) (F64 1, NegZero, NegZero) = (0, 2)"
    by (simp add: pixel_index_def normalize_def np_norm_def tex_coords_def np_arctan2_def
        py_int_def index_image_def)
  have h: "1 \<le> rows ?L" "1 \<le> cols ?L" by (simp_all add: index_image_def)
  show ?thesis
    using face_lookup_in_bounds [OF h d p] d p by (simp add: index_image_def)
qed

subsection \<open>Cubemap projector\<close>



subsection \<open>Non-positive face sizes\<close>

text \<open>
  C5, as stated, fails: a panorama of height 1 with no size gives the face size 0, and
  the error is not detected before the face buffers are allocated: the projection
  allocates all six, each with no rows, and returns them, and the run fails only
  afterwards, in the saving loop.
\<close>

theorem zero_face_size_counterexample:
  "resolve (int (rows (constant_image 1 2 (Finite 0, Finite 0, Finite 0)))) None = 0 \<and>
   project_faces exact32 (constant_image 1 2 (Finite 0, Finite 0, Finite 0)) None =
     Inr [(''right'', constant_image 0 0 (0, 0, 0)), (''left'', constant_image 0 0 (0, 0, 0)),
          (''top'', constant_image 0 0 (0, 0, 0)), (''bottom'', constant_image 0 0 (0, 0, 0)),
          (''front'', constant_image 0 0 (0, 0, 0)), (''back'', constant_image 0 0 (0, 0, 0))] \<and>
   exr_to_cubemap exact32 (constant_image 1 2 (Finite 0, Finite 0, Finite 0)) None =
     Inl Cv2Error"
  by (simp add: exr_to_cubemap_def project_faces_def resolve_def constant_image_def
      all_faces_def make_face_def np_zeros_def cvtColor_BGR2RGB_def)

text \<open>
  C5, amended: whenever the computed face size is not positive the run fails, but no
  check precedes the allocation. When the face size is negative the failure is the
  ValueError that the first allocation \<open>np.zeros\<close> itself raises, so no face buffer
  exists; when it is 0 all six face buffers are allocated, empty, and the projection
  returns them, and the run fails when \<open>cv2.cvtColor\<close> raises on the first of them.
\<close>

theorem nonpositive_face_size:
  "(resolve (int (rows hdr)) size_arg < 0 \<longrightarrow>
      np_zeros (resolve (int (rows hdr)) size_arg) = Inl ValueError \<and>
      project_faces ar hdr size_arg = Inl ValueError \<and>
      exr_to_cubemap ar hdr size_arg = Inl ValueError) \<and>
   (resolve (int (rows hdr)) size_arg = 0 \<longrightarrow>
      project_faces ar hdr size_arg =
        Inr [(''right'', constant_image 0 0 (0, 0, 0)), (''left'', constant_image 0 0 (0, 0, 0)),
             (''top'', constant_image 0 0 (0, 0, 0)), (''bottom'', constant_image 0 0 (0, 0, 0)),
             (''front'', constant_image 0 0 (0, 0, 0)), (''back'', constant_image 0 0 (0, 0, 0))] \<and>
      exr_to_cubemap ar hdr size_arg = Inl Cv2Error)"
  by (simp add: exr_to_cubemap_def project_faces_def constant_image_def all_faces_def
      make_face_def np_zeros_def cvtColor_BGR2RGB_def)

text \<open>
  C5, amended, at concrete inputs: the 2 by 4 marker panorama with size -2 and with
  size 0.
\<close>

theorem nonpositive_face_size_witness:
  "resolve (int (rows (marker_panorama 2 4))) (Some (- 2)) < 0 \<and>
   np_zeros (resolve (int (rows (marker_panorama 2 4))) (Some (- 2))) = Inl ValueError \<and>
   project_faces exact32 (marker_panorama 2 4) (Some (- 2)) = Inl ValueError \<and>
   exr_to_cubemap exact32 (marker_panorama 2 4) (Some (- 2)) = Inl ValueError \<and>
   resolve (int (rows (marker_panorama 2 4))) (Some 0) = 0 \<and>
   project_faces exact32 (marker_panorama 2 4) (Some 0) =
     Inr [(''right'', constant_image 0 0 (0, 0, 0)), (''left'', constant_image 0 0 (0, 0, 0)),
          (''top'', constant_image 0 0 (0, 0, 0)), (''bottom'', constant_image 0 0 (0, 0, 0)),
          (''front'', constant_image 0 0 (0, 0, 0)), (''back'', constant_image 0 0 (0, 0, 0))] \<and>
   exr_to_cubemap exact32 (marker_panorama 2 4) (Some 0) = Inl Cv2Error"
proof -
  let ?H = "marker_panorama 2 4"
  have n: "resolve (int (rows ?H)) (Some (- 2)) < 0" by (simp add: resolve_def)
  have z: "resolve (int (rows ?H)) (Some 0) = 0" by (simp add: resolve_def)
  show ?thesis
    using nonpositive_face_size [of ?H "Some (- 2)" exact32]
      nonpositive_face_size [of ?H "Some 0" exact32] n z
    by simp
qed

subsection \<open>The constant red panorama\<close>

text \<open>
  C6: on the 4 by 2 panorama whose every pixel is \<open>(1.0, 0.0, 0.0)\<close>, where the
  single-precision operations are exact, the face size is 1 and the only pixel of each of
  the six face buffers is \<open>(255, 0, 0)\<close>; the array that the saving loop hands to the
  encoder for each face has the first and the third channel exchanged and holds
  \<open>(0, 0, 255)\<close>, so the saved faces are not \<open>(255, 0, 0)\<close>.
\<close>

theorem red_panorama_saved_blue:
  "\<exists>faces saved.
     project_faces exact32 (constant_image 2 4 (Finite 1, Finite 0, Finite 0)) None
       = Inr faces \<and>
     exr_to_cubemap exact32 (constant_image 2 4 (Finite 1, Finite 0, Finite 0)) None
       = Inr saved \<and>
     map (\<lambda>(name, img). (name, rows img, cols img, item img 0 0)) faces =
       [(''right'', 1, 1, (255, 0, 0)), (''left'', 1, 1, (255, 0, 0)),
        (''top'', 1, 1, (255, 0, 0)), (''bottom'', 1, 1, (255, 0, 0)),
        (''front'', 1, 1, (255, 0, 0)), (''back'', 1, 1, (255, 0, 0))] \<and>
     map (\<lambda>(name, img). (name, rows img, cols img, item img 0 0)) saved =
       [(''right.jpg'', 1, 1, (0, 0, 255)), (''left.jpg'', 1, 1, (0, 0, 255)),
        (''top.jpg'', 1, 1, (0, 0, 255)), (''bottom.jpg'', 1, 1, (0, 0, 255)),
        (''front.jpg'', 1, 1, (0, 0, 255)), (''back.jpg'', 1, 1, (0, 0, 255))]"
proof -
  let ?H = "constant_image 2 4 (Finite 1, Finite 0, Finite 0)"
  let ?L = "constant_image 2 4 ((255, 0, 0) :: rgb8)"
  have l: "tonemap exact32 ?H = ?L"
    by (simp add: tonemap_constant_image tonemap_pixel_def tonemap_channel_exact32)
  have fs: "resolve (int (rows ?H)) None = 1" by (simp add: resolve_def constant_image_def)
  have s: "1 \<le> rows ?L" "1 \<le> cols ?L" by (simp_all add: constant_image_def)
  have face: "rows img = 1 \<and> cols img = 1 \<and> item img 0 0 = (255, 0, 0)"
    if "make_face ?L 1 f = Inr img" for f img
  proof -
    obtain img' where m: "make_face ?L 1 f = Inr img'" "rows img' = nat 1" "cols img' = nat 1"
      "\<forall>i j. if i < nat 1 \<and> j < nat 1
             then Inr (item img' i j) = sample_pixel ?L f 1 i j
             else item img' i j = (0, 0, 0)"
      using make_face_result [OF s, of 1 f] by auto
    have "img' = img" using m(1) that by simp
    moreover have "Inr (item img' 0 0) = sample_pixel ?L f 1 0 0"
      using m(4) [rule_format, of 0 0] by simp
    then have "item img' 0 0 = (255, 0, 0)"
      by (simp add: sample_pixel_constant_image)
    ultimately show ?thesis using m(2,3) by simp
  qed
  obtain f1 f2 f3 f4 f5 f6 where e:
    "project_faces exact32 ?H None =
       Inr [(''right'', f1), (''left'', f2), (''top'', f3),
            (''bottom'', f4), (''front'', f5), (''back'', f6)]"
    "make_face ?L 1 PosX = Inr f1" "make_face ?L 1 NegX = Inr f2"
    "make_face ?L 1 PosY = Inr f3" "make_face ?L 1 NegY = Inr f4"
    "make_face ?L 1 PosZ = Inr f5" "make_face ?L 1 NegZ = Inr f6"
    using project_faces_result [of ?H None exact32] unfolding l fs
    by (auto simp: constant_image_def)
  show ?thesis
    using e(1) face [OF e(2)] face [OF e(3)] face [OF e(4)] face [OF e(5)] face [OF e(6)]
      face [OF e(7)]
    by (simp add: exr_to_cubemap_def cvtColor_BGR2RGB_def)
qed

subsection \<open>Round trip through the texture coordinates\<close>

text \<open>
  C8: for every direction vector of length 1, the texture coordinates
  \<open>texU = 0.5 + atan2(x, z) / (2\<pi>)\<close>, \<open>texV = 0.5 - asin(y) / \<pi>\<close> followed by the inverse
  spherical mapping give the vector back (exactly, over the reals), whatever the signs of
  its zeros.
\<close>

theorem spherical_round_trip:
  assumes "(val x)\<^sup>2 + (val y)\<^sup>2 + (val z)\<^sup>2 = 1"
  shows "spec_inverse_spherical (tex_coords (x, y, z)) = vals (x, y, z)"
proof -
  have y2: "(val y)\<^sup>2 \<le> 1" using assms by (smt (verit) zero_le_power2)
  then have "\<bar>val y\<bar> \<le> 1" by (simp add: abs_square_le_1)
  then have yb: "- 1 \<le> val y" "val y \<le> 1" by linarith+
  have sl: "sin (arcsin (val y)) = val y" using yb by simp
  have "cos (arcsin (val y)) = sqrt (1 - (val y)\<^sup>2)" using yb by (rule cos_arcsin)
  also have "1 - (val y)\<^sup>2 = (val x)\<^sup>2 + (val z)\<^sup>2" using assms by simp
  finally have cl: "cos (arcsin (val y)) = sqrt ((val x)\<^sup>2 + (val z)\<^sup>2)" .
  have lon: "(0.5 + np_arctan2 x z / (2 * pi) - 0.5) * (2 * pi) = np_arctan2 x z" by simp
  have lat: "(0.5 - (0.5 - arcsin (val y) / pi)) * pi = arcsin (val y)" by simp
  have "spec_inverse_spherical (tex_coords (x, y, z)) =
          (cos (arcsin (val y)) * sin (np_arctan2 x z), sin (arcsin (val y)),
           cos (arcsin (val y)) * cos (np_arctan2 x z))"
    unfolding spec_inverse_spherical_def tex_coords_def Let_def prod.case lon lat ..
  also have "\<dots> = vals (x, y, z)"
    unfolding cl sl vals_def using np_arctan2_polar [of x z] by simp
  finally show ?thesis .
qed

text \<open>
  C8, at a concrete input: the vector \<open>(0, 0, -1)\<close>, on the seam of the panorama, has the
  texture coordinates \<open>(1, 1/2)\<close>, which map back to it.
\<close>

theorem spherical_round_trip_witness:
  "(val (F64 0))\<^sup>2 + (val (F64 0))\<^sup>2 + (val (F64 (- 1)))\<^sup>2 = 1 \<and>
   tex_coords (F64 0, F64 0, F64 (- 1)) = (1, 1 / 2) \<and>
   spec_inverse_spherical (1, 1 / 2) = (0, 0, - 1)"
proof -
  have h: "(val (F64 0))\<^sup>2 + (val (F64 0))\<^sup>2 + (val (F64 (- 1)))\<^sup>2 = 1" by simp
  have t: "tex_coords (F64 0, F64 0, F64 (- 1)) = (1, 1 / 2)"
    by (simp add: tex_coords_def np_arctan2_def)
  show ?thesis using spherical_round_trip [OF h] h t by (simp add: vals_def)
qed

end
